theory Spec2Isabelle
  imports Main
begin

section \<open>Values, errors and outcomes\<close>

text \<open>
  \<open>main.py\<close> keeps its records in the SQLite table \<open>employees\<close>, which it reaches through
  the SQLAlchemy ORM (the four CRUD functions) and through \<open>DataFrame.to_sql\<close> (the CSV
  loader). What these calls do to the table is written out below as functions on the table.

  A value held by a DataFrame cell, by a Python argument or by a cell of the table is
  \<open>NULL\<close> (Python's \<open>None\<close>; a missing CSV value, which pandas holds as \<open>NaN\<close> and
  writes as \<open>NULL\<close>), a text, an integer (a Python \<open>int\<close>, as pandas gives for an \<open>int64\<close>
  or \<open>uint64\<close> column) or a float. The type \<open>'s\<close> stands for the floats (a \<open>NaN\<close> is none of
  them: SQLite stores it as \<open>NULL\<close>): no function of the program computes with them, they
  are only stored and compared, so the type is left open.
\<close>

datatype 's cell = Null | Txt string | Intg int | Num 's

text \<open>
  The exceptions that reach the program: \<open>sqlalchemy.exc.IntegrityError\<close> (a \<open>NOT NULL\<close>,
  \<open>UNIQUE\<close> or \<open>PRIMARY KEY\<close> constraint failed, or a value that is no integer was given
  for the key), \<open>sqlalchemy.exc.OperationalError\<close> (the statement names a column the table
  does not have), Python's \<open>OverflowError\<close> (an \<open>int\<close> outside the signed 64-bit range is
  bound to a statement: SQLite's integers have 64 bits) and the errors of \<open>pd.read_csv\<close> on
  a file it cannot parse.
\<close>

datatype error = IntegrityError | OperationalError | OverflowError | ParserError

definition int64 :: "int \<Rightarrow> bool" where
  "int64 i = (- (2 ^ 63) \<le> i \<and> i < 2 ^ 63)"

text \<open>A CRUD function either returns (\<open>None\<close>) or lets an exception escape.\<close>

datatype outcome = Returned | Raised error

section \<open>Schema\<close>

text \<open>
  \<^verbatim>\<open>
  class Employee(Base):
      __tablename__ = 'employees'
      id = Column(Integer, primary_key=True, autoincrement=True)
      name = Column(String(100), nullable=False)
      position = Column(String(100), nullable=False)
      email = Column(String(100), unique=True, nullable=False)
      salary = Column(Float, nullable=False)
      department = Column(String(100), nullable=False)
  \<close>
  The integer primary key and five business columns, all \<open>NOT NULL\<close>, \<open>email\<close> \<open>UNIQUE\<close>.
  SQLite types its values dynamically and does not enforce the length of a \<open>VARCHAR\<close>, so
  every business column may hold a text of any length or a number. A key is a signed
  64-bit integer.
\<close>

record 's employee =
  emp_id :: int
  name :: "'s cell"
  position :: "'s cell"
  email :: "'s cell"
  salary :: "'s cell"
  department :: "'s cell"

type_synonym 's table = "'s employee list"

datatype column = Id | Name | Position | Email | Salary | Department

datatype sql_type = VARCHAR | FLOAT

text \<open>
  \<open>Base.metadata.create_all(engine)\<close> creates the table when it is absent and leaves an
  existing table as it is; \<open>Employee.__table__.drop(engine, checkfirst=True)\<close> removes it.
  The module runs \<open>create_all\<close> when it is loaded (line 29), so every function below finds
  a table.
\<close>

definition create_all :: "'s table option \<Rightarrow> 's table" where
  "create_all db = (case db of None \<Rightarrow> [] | Some tbl \<Rightarrow> tbl)"

definition drop_table :: "'s table \<Rightarrow> 's table option" where
  "drop_table tbl = None"

section \<open>The statements the engine runs\<close>

text \<open>
  The table is declared without SQLite's \<open>AUTOINCREMENT\<close> keyword (SQLAlchemy writes it
  only under \<open>sqlite_autoincrement=True\<close>), so \<open>id\<close> is an alias of the rowid: a row
  inserted without a key gets one more than the largest key in the table, and 1 in an empty
  table. (Only with the largest key at \<open>2^63 - 1\<close> does SQLite depart from this; the tables
  here stay below it, and keys are unbounded integers.)
\<close>

definition next_rowid :: "'s table \<Rightarrow> int" where
  "next_rowid tbl = (case map emp_id tbl of [] \<Rightarrow> 1 | i # ids \<Rightarrow> fold max ids i + 1)"

text \<open>
  \<open>INSERT INTO employees\<close>: the key is generated when none is given; the row is refused
  when a business column would be \<open>NULL\<close>, when the key is taken or when the email is that
  of a row of the table.
\<close>

definition sql_insert ::
  "int option \<Rightarrow> 's cell \<Rightarrow> 's cell \<Rightarrow> 's cell \<Rightarrow> 's cell \<Rightarrow> 's cell \<Rightarrow> 's table
    \<Rightarrow> error + 's table" where
  "sql_insert key n p e s d tbl =
     (let i = (case key of None \<Rightarrow> next_rowid tbl | Some k \<Rightarrow> k) in
      if Null \<in> set [n, p, e, s, d] then Inl IntegrityError
      else if i \<in> set (map emp_id tbl) then Inl IntegrityError
      else if e \<in> set (map email tbl) then Inl IntegrityError
      else Inr (tbl @ [\<lparr>emp_id = i, name = n, position = p, email = e, salary = s,
                        department = d\<rparr>]))"

text \<open>\<open>UPDATE employees SET ... WHERE id = ?\<close>, under the same constraints.\<close>

definition sql_update ::
  "int \<Rightarrow> 's cell \<Rightarrow> 's cell \<Rightarrow> 's cell \<Rightarrow> 's cell \<Rightarrow> 's cell \<Rightarrow> 's table
    \<Rightarrow> error + 's table" where
  "sql_update i n p e s d tbl =
     (if Null \<in> set [n, p, e, s, d] then Inl IntegrityError
      else if \<exists>x \<in> set tbl. emp_id x \<noteq> i \<and> email x = e then Inl IntegrityError
      else Inr (map (\<lambda>x. if emp_id x = i
                          then x\<lparr>name := n, position := p, email := e, salary := s,
                                 department := d\<rparr>
                          else x) tbl))"

text \<open>\<open>DELETE FROM employees WHERE id = ?\<close>.\<close>

definition sql_delete :: "int \<Rightarrow> 's table \<Rightarrow> error + 's table" where
  "sql_delete i tbl = Inr (filter (\<lambda>x. emp_id x \<noteq> i) tbl)"

section \<open>Sessions\<close>

text \<open>
  Each CRUD function opens a session of its own, so a session sees the committed table.
  \<open>session.commit()\<close> sends the pending statement; when the engine refuses it the
  transaction is rolled back, the table stays as it was and the exception leaves the
  function (none of them catches it).
\<close>

definition commit :: "('s table \<Rightarrow> error + 's table) \<Rightarrow> 's table \<Rightarrow> outcome \<times> 's table" where
  "commit flush tbl =
     (case flush tbl of Inl e \<Rightarrow> (Raised e, tbl) | Inr tbl' \<Rightarrow> (Returned, tbl'))"

text \<open>
  \<open>session.query(Employee).get(id)\<close>: the row with that key, or \<open>None\<close>. The id is bound to
  the \<open>SELECT\<close>, and binding a Python \<open>int\<close> outside the signed 64-bit range raises
  \<open>OverflowError\<close>; neither \<open>update_employee\<close> nor \<open>delete_employee\<close> catches it. (The bind
  comes before the lookup. No key of a table is outside that range, so under an id that
  cannot be bound no row of a table is found: the order of the two cases below makes no
  difference on a table, and it keeps the lookup defined on the lists that are none.)
\<close>

definition query_get :: "int \<Rightarrow> 's table \<Rightarrow> error + 's employee option" where
  "query_get i tbl =
     (case find (\<lambda>x. emp_id x = i) tbl of
        Some x \<Rightarrow> Inr (Some x)
      | None \<Rightarrow> if int64 i then Inr None else Inl OverflowError)"

text \<open>
  The arguments of the CRUD functions are what the forms pass: a \<open>str\<close> for the four text
  fields and a \<open>float\<close> for the salary, or \<open>None\<close>.
\<close>

definition py_str :: "string option \<Rightarrow> 's cell" where
  "py_str v = (case v of None \<Rightarrow> Null | Some t \<Rightarrow> Txt t)"

definition py_float :: "'s option \<Rightarrow> 's cell" where
  "py_float v = (case v of None \<Rightarrow> Null | Some x \<Rightarrow> Num x)"

section \<open>CRUD operations\<close>

text \<open>
  \<^verbatim>\<open>
  def load_employees():
      session = Session()
      employees = session.query(Employee).all()
      session.close()
      return employees
  \<close>
  All rows of the table (the engine does not promise an order; the model keeps the order
  of insertion).
\<close>

definition load_employees :: "'s table \<Rightarrow> 's employee list" where
  "load_employees tbl = tbl"

text \<open>
  The program reads a record by its id from that list (line 160):
  \<^verbatim>\<open>
  employee = df[df['ID'] == employee_id].iloc[0] if not df[df['ID'] == employee_id].empty else None
  \<close>
\<close>

definition read_employee :: "int \<Rightarrow> 's table \<Rightarrow> 's employee option" where
  "read_employee i tbl = find (\<lambda>x. emp_id x = i) (load_employees tbl)"

text \<open>
  \<^verbatim>\<open>
  def add_employee(name, position, email, salary, department):
      session = Session()
      new_employee = Employee(name=name, position=position, email=email,
                              salary=salary, department=department)
      session.add(new_employee)
      session.commit()
      session.close()
  \<close>
  No \<open>id\<close> is given, so the engine generates the key.
\<close>

definition add_employee ::
  "string option \<Rightarrow> string option \<Rightarrow> string option \<Rightarrow> 's option \<Rightarrow> string option
    \<Rightarrow> 's table \<Rightarrow> outcome \<times> 's table" where
  "add_employee name' position' email' salary' department' tbl =
     commit (sql_insert None (py_str name') (py_str position') (py_str email') (py_float salary')
               (py_str department')) tbl"

text \<open>
  \<^verbatim>\<open>
  def update_employee(id, name, position, email, salary, department):
      session = Session()
      employee = session.query(Employee).get(id)
      if employee:
          employee.name = name
          employee.position = position
          employee.email = email
          employee.salary = salary
          employee.department = department
          session.commit()
      session.close()
  \<close>
\<close>

definition update_employee ::
  "int \<Rightarrow> string option \<Rightarrow> string option \<Rightarrow> string option \<Rightarrow> 's option \<Rightarrow> string option
    \<Rightarrow> 's table \<Rightarrow> outcome \<times> 's table" where
  "update_employee id' name' position' email' salary' department' tbl =
     (case query_get id' tbl of
        Inl e \<Rightarrow> (Raised e, tbl)
      | Inr None \<Rightarrow> (Returned, tbl)
      | Inr (Some employee) \<Rightarrow>
          commit (sql_update id' (py_str name') (py_str position') (py_str email') (py_float salary')
                    (py_str department')) tbl)"

text \<open>
  \<^verbatim>\<open>
  def delete_employee(id):
      session = Session()
      employee = session.query(Employee).get(id)
      if employee:
          session.delete(employee)
          session.commit()
      session.close()
  \<close>
\<close>

definition delete_employee :: "int \<Rightarrow> 's table \<Rightarrow> outcome \<times> 's table" where
  "delete_employee id' tbl =
     (case query_get id' tbl of
        Inl e \<Rightarrow> (Raised e, tbl)
      | Inr None \<Rightarrow> (Returned, tbl)
      | Inr (Some employee) \<Rightarrow> commit (sql_delete id') tbl)"

section \<open>The CSV loader\<close>

text \<open>
  The DataFrame \<open>pd.read_csv\<close> returns: the header and the rows, each row with one cell
  per header name. The cells are what pandas has made of the fields of the file: an empty
  field and a marker such as \<open>NA\<close>, \<open>NaN\<close> or \<open>null\<close> are read as missing, and a column whose
  fields all spell numbers holds numbers. What is at the path \<open>employees.csv\<close> is no file, a
  file \<open>read_csv\<close> fails on, or a file it reads.
\<close>

record 's dataframe =
  columns :: "string list"
  rows :: "'s cell list list"

datatype 's csv_path = NoFile | Unreadable | Csv "'s dataframe"

definition required_columns :: "string list" where
  "required_columns = [''name'', ''position'', ''email'', ''salary'', ''department'']"

text \<open>
  \<open>to_sql(..., if_exists='append', index=False)\<close> inserts into the existing table and names
  every column of the frame in its \<open>INSERT\<close>. SQLite compares column names without regard
  to the case of ASCII letters and takes \<open>rowid\<close>, \<open>oid\<close> and \<open>_rowid_\<close> for the key; a
  name that denotes no column makes the statement fail.
\<close>

definition lower :: "char \<Rightarrow> char" where
  "lower c =
     (case map_of (zip ''ABCDEFGHIJKLMNOPQRSTUVWXYZ'' ''abcdefghijklmnopqrstuvwxyz'') c of
        None \<Rightarrow> c | Some l \<Rightarrow> l)"

definition column_of :: "string \<Rightarrow> column option" where
  "column_of c =
     map_of [(''id'', Id), (''name'', Name), (''position'', Position), (''email'', Email),
             (''salary'', Salary), (''department'', Department),
             (''rowid'', Id), (''oid'', Id), (''_rowid_'', Id)] (map lower c)"

text \<open>
  The cell a row gives for a column of the table, \<open>NULL\<close> when no name of the header
  denotes the column. (pandas keeps the names of a header distinct, but two of them can
  denote one column, as \<open>name\<close> and \<open>Name\<close> do; SQLite then takes the first for a business
  column and the last for the key.)
\<close>

definition value_of :: "string list \<Rightarrow> 's cell list \<Rightarrow> column \<Rightarrow> 's cell" where
  "value_of hdr r c =
     (let named = zip (map column_of hdr) r in
      case map_of (if c = Id then rev named else named) (Some c) of
        None \<Rightarrow> Null
      | Some v \<Rightarrow> v)"

text \<open>
  The engine converts a value to the affinity of its column. \<open>NULL\<close> stays \<open>NULL\<close>, a
  text in a \<open>VARCHAR\<close> column and a float in the \<open>FLOAT\<close> column stay as they are. A number
  in a \<open>VARCHAR\<close> column is stored as its text. In the \<open>FLOAT\<close> column an integer is stored
  as the float nearest to it (integers beyond \<open>2^53\<close> are rounded), and a text as the number
  it spells when it is a well-formed numeric literal, and as the text it is otherwise
  (SQLite does not refuse it). A float or a text given for the key must stand for an
  integer, or the statement fails. These conversions are SQLite's; they are parameters here.
\<close>

record 's sqlite =
  num_text :: "'s \<Rightarrow> string"
  int_text :: "int \<Rightarrow> string"
  text_num :: "string \<Rightarrow> 's option"
  int_real :: "int \<Rightarrow> 's"
  rowid_of :: "'s cell \<Rightarrow> error + int"

fun store :: "'s sqlite \<Rightarrow> sql_type \<Rightarrow> 's cell \<Rightarrow> 's cell" where
  "store E ty Null = Null"
| "store E VARCHAR (Txt t) = Txt t"
| "store E VARCHAR (Intg i) = Txt (int_text E i)"
| "store E VARCHAR (Num x) = Txt (num_text E x)"
| "store E FLOAT (Num x) = Num x"
| "store E FLOAT (Intg i) = Num (int_real E i)"
| "store E FLOAT (Txt t) = (case text_num E t of None \<Rightarrow> Txt t | Some x \<Rightarrow> Num x)"

text \<open>
  Every cell of a row is bound to the \<open>INSERT\<close>; an integer outside the signed 64-bit range
  cannot be bound (\<open>OverflowError\<close>).
\<close>

fun bindable :: "'s cell \<Rightarrow> bool" where
  "bindable (Intg i) = int64 i"
| "bindable v = True"

text \<open>The key a row gives: none, an integer, or the engine's reading of a float or a text.\<close>

fun key_of :: "'s sqlite \<Rightarrow> 's cell \<Rightarrow> (error + int) option" where
  "key_of E Null = None"
| "key_of E (Intg i) = Some (Inr i)"
| "key_of E v = Some (rowid_of E v)"

definition insert_row ::
  "'s sqlite \<Rightarrow> string list \<Rightarrow> 's cell list \<Rightarrow> 's table \<Rightarrow> error + 's table" where
  "insert_row E hdr r tbl =
     (let v = value_of hdr r;
          ins = (\<lambda>key. sql_insert key (store E VARCHAR (v Name)) (store E VARCHAR (v Position))
                         (store E VARCHAR (v Email)) (store E FLOAT (v Salary))
                         (store E VARCHAR (v Department)) tbl)
      in if \<not> list_all bindable r then Inl OverflowError
         else case key_of E (v Id) of
                None \<Rightarrow> ins None
              | Some (Inl e) \<Rightarrow> Inl e
              | Some (Inr i) \<Rightarrow> ins (Some i))"

text \<open>
  \<open>to_sql\<close> returns at once on a frame without rows. Otherwise it sends the rows in one
  \<open>executemany\<close>, which stores them one after the other and stops at the first row the
  engine refuses. pandas (from 2.0) commits its transaction when it leaves \<open>to_sql\<close>, also
  when it leaves with the error: the rows stored before the refused one stay in the table.
  A column name that denotes no column fails the statement before any row is stored.
\<close>

fun insert_rows ::
  "'s sqlite \<Rightarrow> string list \<Rightarrow> 's cell list list \<Rightarrow> 's table \<Rightarrow> error option \<times> 's table" where
  "insert_rows E hdr [] tbl = (None, tbl)"
| "insert_rows E hdr (r # rs) tbl =
     (case insert_row E hdr r tbl of
        Inl e \<Rightarrow> (Some e, tbl)
      | Inr tbl' \<Rightarrow> insert_rows E hdr rs tbl')"

definition to_sql :: "'s sqlite \<Rightarrow> 's dataframe \<Rightarrow> 's table \<Rightarrow> error option \<times> 's table" where
  "to_sql E df tbl =
     (if rows df = [] then (None, tbl)
      else if \<exists>c \<in> set (columns df). column_of c = None then (Some OperationalError, tbl)
      else insert_rows E (columns df) (rows df) tbl)"

text \<open>
  \<^verbatim>\<open>
  def load_csv_to_db():
      csv_path = 'employees.csv'
      if os.path.exists(csv_path):
          try:
              df = pd.read_csv(csv_path)
              required_columns = ['name', 'position', 'email', 'salary', 'department']
              if all(col in df.columns for col in required_columns):
                  Employee.__table__.drop(engine, checkfirst=True)
                  Base.metadata.create_all(engine)
                  df.to_sql('employees', engine, if_exists='append', index=False)
                  print(f"Data from {csv_path} has been successfully loaded into the database.")
              else:
                  print(f"Error: {csv_path} is missing one or more required columns.")
          except Exception as e:
              print(f"Error loading CSV: {str(e)}")
      else:
          print(f"CSV file not found: {csv_path}")
  \<close>
  \<open>load_csv_to_db\<close> prints one of four messages and returns; \<open>except Exception\<close> keeps every
  error of the \<open>try\<close> block inside. The drop and the re-creation of the table are committed
  before \<open>to_sql\<close> starts, so after an error of \<open>to_sql\<close> the table holds what \<open>to_sql\<close> has
  stored in the new table.
\<close>

datatype message = Loaded | MissingColumns | LoadError error | NotFound

definition load_csv_to_db ::
  "'s sqlite \<Rightarrow> 's csv_path \<Rightarrow> 's table \<Rightarrow> message \<times> 's table" where
  "load_csv_to_db E csv_path tbl =
     (case csv_path of
        NoFile \<Rightarrow> (NotFound, tbl)
      | Unreadable \<Rightarrow> (LoadError ParserError, tbl)
      | Csv df \<Rightarrow>
          if \<forall>col \<in> set required_columns. col \<in> set (columns df) then
            (case to_sql E df (create_all (drop_table tbl)) of
               (Some e, tbl') \<Rightarrow> (LoadError e, tbl')
             | (None, tbl') \<Rightarrow> (Loaded, tbl'))
          else (MissingColumns, tbl))"

section \<open>Notions the properties are stated with\<close>





text \<open>
  The keys the rows of a frame get, one after the other, when the keys \<open>used\<close> are in the
  table: the key a row gives, and for a row that gives none one more than the largest key
  so far (1 when there is none).
\<close>

definition next_key :: "int list \<Rightarrow> int" where
  "next_key used = (case used of [] \<Rightarrow> 1 | i # ids \<Rightarrow> fold max ids i + 1)"

definition assigned_key :: "'s sqlite \<Rightarrow> string list \<Rightarrow> int list \<Rightarrow> 's cell list \<Rightarrow> int" where
  "assigned_key E hdr used r =
     (case key_of E (value_of hdr r Id) of Some (Inr k) \<Rightarrow> k | _ \<Rightarrow> next_key used)"

fun assigned_keys :: "'s sqlite \<Rightarrow> string list \<Rightarrow> int list \<Rightarrow> 's cell list list \<Rightarrow> int list" where
  "assigned_keys E hdr used [] = []"
| "assigned_keys E hdr used (r # rs) =
     assigned_key E hdr used r
       # assigned_keys E hdr (used @ [assigned_key E hdr used r]) rs"




subsection \<open>Example data\<close>

text \<open>
  The two employees of the specification's end-to-end example, a third one, and the CSV
  file of the first two. In the examples the floats are those with an integral value,
  written as integers. The frames of the examples hold texts in the text columns and floats
  in the salary column, where the engine has nothing to convert; the engine they run on
  converts an integer of the 64-bit range to the nearest float, reads a float given for the
  key as the integer it is, and knows no conversion between texts and numbers.
\<close>

definition nearest_double :: "int \<Rightarrow> int" where
  "nearest_double i =
     (case find (\<lambda>q. \<bar>i\<bar> div q < 2 ^ 53) [1, 2, 4, 8, 16, 32, 64, 128, 256, 512, 1024, 2048] of
        None \<Rightarrow> i
      | Some q \<Rightarrow>
          (let m = \<bar>i\<bar> div q; rest = \<bar>i\<bar> mod q;
               m' = (if q < 2 * rest \<or> (2 * rest = q \<and> odd m) then m + 1 else m)
           in sgn i * (m' * q)))"

definition no_conversion :: "int sqlite" where
  "no_conversion =
     \<lparr>num_text = (\<lambda>x. []), int_text = (\<lambda>i. []), text_num = (\<lambda>t. None),
      int_real = nearest_double,
      rowid_of = (\<lambda>v. case v of
                          Num x \<Rightarrow> if int64 x then Inr x else Inl IntegrityError
                        | _ \<Rightarrow> Inl IntegrityError)\<rparr>"

definition alice :: "int employee" where
  "alice = \<lparr>emp_id = 1, name = Txt ''Alice'', position = Txt ''Engineer'',
             email = Txt ''alice@x.com'', salary = Num 90000, department = Txt ''Eng''\<rparr>"

definition bob :: "int employee" where
  "bob = \<lparr>emp_id = 2, name = Txt ''Bob'', position = Txt ''Manager'',
           email = Txt ''bob@x.com'', salary = Num 110000, department = Txt ''Ops''\<rparr>"

definition carol :: "int employee" where
  "carol = \<lparr>emp_id = 2, name = Txt ''Carol'', position = Txt ''Analyst'',
             email = Txt ''carol@x.com'', salary = Num 70000, department = Txt ''Ops''\<rparr>"





definition notes_csv :: "int dataframe" where
  "notes_csv =
     \<lparr>columns = [''name'', ''position'', ''email'', ''salary'', ''department'', ''notes''],
      rows = [[Txt ''Carol'', Txt ''Analyst'', Txt ''carol@x.com'', Num 70000, Txt ''Ops'',
               Txt ''part time'']]\<rparr>"

text \<open>A CSV with a key column, spelled \<open>ID\<close>.\<close>

definition keyed_csv :: "int dataframe" where
  "keyed_csv =
     \<lparr>columns = [''ID'', ''name'', ''position'', ''email'', ''salary'', ''department''],
      rows = [[Intg 10, Txt ''Carol'', Txt ''Analyst'', Txt ''carol@x.com'', Num 70000,
               Txt ''Ops'']]\<rparr>"

section \<open>Facts about the table operations\<close>

lemmas crud_defs = add_employee_def update_employee_def delete_employee_def load_employees_def
  read_employee_def commit_def sql_insert_def sql_update_def sql_delete_def query_get_def
  next_rowid_def py_str_def py_float_def Let_def

lemmas data_defs = alice_def bob_def carol_def

lemma query_get_absent:
  "i \<notin> set (map emp_id tbl)
   \<Longrightarrow> query_get i tbl = (if int64 i then Inr None else Inl OverflowError)"
proof -
  assume "i \<notin> set (map emp_id tbl)"
  then have "find (\<lambda>x. emp_id x = i) tbl = None"
    by (auto simp: find_None_iff)
  then show ?thesis by (simp add: query_get_def)
qed

lemma query_get_present: "i \<in> set (map emp_id tbl) \<Longrightarrow> \<exists>x. query_get i tbl = Inr (Some x)"
  by (cases "find (\<lambda>x. emp_id x = i) tbl") (auto simp: query_get_def find_None_iff)

lemma read_employee_updated:
  assumes "i \<in> set (map emp_id tbl)"
  shows "read_employee i (map (\<lambda>x. if emp_id x = i
                               then x\<lparr>name := n, position := p, email := e, salary := s,
                                      department := d\<rparr>
                               else x) tbl)
         = Some \<lparr>emp_id = i, name = n, position = p, email = e, salary = s, department = d\<rparr>"
  using assms by (induction tbl) (auto simp: read_employee_def load_employees_def)

lemma read_employee_deleted: "read_employee i (filter (\<lambda>x. emp_id x \<noteq> i) tbl) = None"
  by (simp add: read_employee_def load_employees_def find_None_iff)

text \<open>
  C2, as amended. For an id of the signed 64-bit range that no row of the table has,
  \<open>update_employee\<close> (with any field values) and \<open>delete_employee\<close> return without raising
  and leave the table as it was.
\<close>

theorem missing_id_is_noop:
  assumes "id' \<notin> set (map emp_id tbl)" and "int64 id'"
  shows "update_employee id' name' position' email' salary' department' tbl = (Returned, tbl)
       \<and> delete_employee id' tbl = (Returned, tbl)"
  using assms by (simp add: update_employee_def delete_employee_def query_get_absent)

theorem missing_id_is_noop_witness:
  "update_employee 7 (Some ''Bob'') (Some ''Manager'') (Some ''bob@x.com'') (Some 110000)
      (Some ''Ops'') [alice] = (Returned, [alice])
   \<and> delete_employee 7 [alice] = (Returned, [alice])"
  by (rule missing_id_is_noop) (simp_all add: alice_def int64_def)

text \<open>
  C2 as stated fails: \<open>2^63\<close> is an id that no row has, and both functions raise
  \<open>OverflowError\<close> on it (the table is unchanged).
\<close>

theorem unbindable_id_counterexample:
  "update_employee 9223372036854775808 (Some ''Bob'') (Some ''Manager'') (Some ''bob@x.com'')
      (Some 110000) (Some ''Ops'') [alice] = (Raised OverflowError, [alice])
   \<and> delete_employee 9223372036854775808 [alice] = (Raised OverflowError, [alice])
   \<and> 9223372036854775808 \<notin> set (map emp_id [alice])"
  by (simp add: update_employee_def delete_employee_def query_get_def int64_def alice_def)

text \<open>
  C3. When a row of the table has the email \<open>e\<close>, \<open>add_employee\<close> with the email \<open>e\<close>
  raises \<open>IntegrityError\<close> (the constraint violation) whatever the other fields are, and
  the table is as it was before the call: nothing is inserted.
\<close>

theorem duplicate_email_rejected:
  assumes "Txt e \<in> set (map email tbl)"
  shows "add_employee name' position' (Some e) salary' department' tbl
         = (Raised IntegrityError, tbl)"
  using assms by (simp add: add_employee_def commit_def sql_insert_def py_str_def Let_def)

theorem duplicate_email_rejected_witness:
  "add_employee (Some ''Alice B'') (Some ''Clerk'') (Some ''alice@x.com'') (Some 50000)
     (Some ''Ops'') [alice, bob] = (Raised IntegrityError, [alice, bob])"
  by (rule duplicate_email_rejected) (simp add: alice_def)

text \<open>
  C4, as amended. For an id the table has and five field values whose email no row with
  another id holds, \<open>update_employee\<close> returns and the row read back under the id has
  exactly these fields; \<open>delete_employee\<close> returns and reading the id back finds nothing.
\<close>

theorem update_round_trip:
  assumes present: "id' \<in> set (map emp_id tbl)"
      and free: "\<forall>x \<in> set tbl. email x = Txt e \<longrightarrow> emp_id x = id'"
  shows "fst (update_employee id' (Some n) (Some p) (Some e) (Some s) (Some d) tbl) = Returned
       \<and> read_employee id'
            (snd (update_employee id' (Some n) (Some p) (Some e) (Some s) (Some d) tbl))
           = Some \<lparr>emp_id = id', name = Txt n, position = Txt p, email = Txt e,
                    salary = Num s, department = Txt d\<rparr>
       \<and> fst (delete_employee id' tbl) = Returned
       \<and> read_employee id' (snd (delete_employee id' tbl)) = None"
proof -
  obtain x where found: "query_get id' tbl = Inr (Some x)"
    using query_get_present [OF present] by blast
  have ok: "sql_update id' (Txt n) (Txt p) (Txt e) (Num s) (Txt d) tbl
            = Inr (map (\<lambda>x. if emp_id x = id'
                             then x\<lparr>name := Txt n, position := Txt p, email := Txt e,
                                    salary := Num s, department := Txt d\<rparr>
                             else x) tbl)"
    using free by (auto simp: sql_update_def)
  have upd: "update_employee id' (Some n) (Some p) (Some e) (Some s) (Some d) tbl
             = (Returned, map (\<lambda>x. if emp_id x = id'
                             then x\<lparr>name := Txt n, position := Txt p, email := Txt e,
                                    salary := Num s, department := Txt d\<rparr>
                             else x) tbl)"
    by (simp add: update_employee_def found commit_def ok py_str_def py_float_def)
  have del: "delete_employee id' tbl = (Returned, filter (\<lambda>x. emp_id x \<noteq> id') tbl)"
    by (simp add: delete_employee_def found commit_def sql_delete_def)
  show ?thesis
    by (simp add: upd del read_employee_updated [OF present] read_employee_deleted)
qed

theorem update_round_trip_witness:
  "fst (update_employee 2 (Some ''Robert'') (Some ''Director'') (Some ''bob@x.com'')
          (Some 120000) (Some ''Ops'') [alice, bob]) = Returned
   \<and> read_employee 2 (snd (update_employee 2 (Some ''Robert'') (Some ''Director'')
          (Some ''bob@x.com'') (Some 120000) (Some ''Ops'') [alice, bob]))
       = Some \<lparr>emp_id = 2, name = Txt ''Robert'', position = Txt ''Director'',
                email = Txt ''bob@x.com'', salary = Num 120000, department = Txt ''Ops''\<rparr>
   \<and> fst (delete_employee 2 [alice, bob]) = Returned
   \<and> read_employee 2 (snd (delete_employee 2 [alice, bob])) = None"
  by (rule update_round_trip) (simp_all add: data_defs)

text \<open>
  C4 as stated fails: with Alice and Bob in the table, updating Bob (id 2) to Alice's email
  raises \<open>IntegrityError\<close>; the table is unchanged and the row read back under id 2 is
  the old one, not the fields given.
\<close>

theorem update_to_taken_email_counterexample:
  "update_employee 2 (Some ''Bob'') (Some ''Manager'') (Some ''alice@x.com'') (Some 110000)
     (Some ''Ops'') [alice, bob] = (Raised IntegrityError, [alice, bob])
   \<and> read_employee 2 [alice, bob] = Some bob
   \<and> email bob \<noteq> Txt ''alice@x.com''"
  by (simp add: crud_defs data_defs)

text \<open>
  C10. \<open>update_employee\<close> leaves every row whose id is not the given one as it was, keeps
  the ids of all rows and adds or removes none; \<open>delete_employee\<close> leaves exactly the rows
  whose id is not the given one, unchanged and in their order.
\<close>

theorem others_untouched:
  "filter (\<lambda>x. emp_id x \<noteq> id')
     (snd (update_employee id' name' position' email' salary' department' tbl))
     = filter (\<lambda>x. emp_id x \<noteq> id') tbl
   \<and> map emp_id (snd (update_employee id' name' position' email' salary' department' tbl))
     = map emp_id tbl
   \<and> snd (delete_employee id' tbl) = filter (\<lambda>x. emp_id x \<noteq> id') tbl"
proof -
  let ?f = "\<lambda>x. if emp_id x = id'
                 then x\<lparr>name := py_str name', position := py_str position',
                        email := py_str email', salary := py_float salary',
                        department := py_str department'\<rparr>
                 else x"
  have keep: "filter (\<lambda>x. emp_id x \<noteq> id') (map ?f tbl) = filter (\<lambda>x. emp_id x \<noteq> id') tbl"
    by (induction tbl) auto
  have ids: "map emp_id (map ?f tbl) = map emp_id tbl"
    by (induction tbl) auto
  have upd: "snd (update_employee id' name' position' email' salary' department' tbl) = tbl
           \<or> snd (update_employee id' name' position' email' salary' department' tbl) = map ?f tbl"
    by (auto simp: update_employee_def commit_def sql_update_def split: sum.splits option.splits)
  have del: "snd (delete_employee id' tbl) = filter (\<lambda>x. emp_id x \<noteq> id') tbl"
  proof (cases "find (\<lambda>x. emp_id x = id') tbl")
    case None
    then have "\<forall>x \<in> set tbl. emp_id x \<noteq> id'"
      by (simp add: find_None_iff)
    then show ?thesis using None by (simp add: delete_employee_def query_get_def)
  next
    case (Some x)
    then show ?thesis
      by (simp add: delete_employee_def query_get_def commit_def sql_delete_def)
  qed
  show ?thesis using upd keep ids del by auto
qed

theorem others_untouched_witness:
  "filter (\<lambda>x. emp_id x \<noteq> 2)
     (snd (update_employee 2 (Some ''Robert'') (Some ''Director'') (Some ''bob@x.com'')
             (Some 120000) (Some ''Ops'') [alice, bob]))
     = filter (\<lambda>x. emp_id x \<noteq> 2) [alice, bob]
   \<and> map emp_id (snd (update_employee 2 (Some ''Robert'') (Some ''Director'')
             (Some ''bob@x.com'') (Some 120000) (Some ''Ops'') [alice, bob]))
     = map emp_id [alice, bob]
   \<and> snd (delete_employee 2 [alice, bob]) = filter (\<lambda>x. emp_id x \<noteq> 2) [alice, bob]"
  by (rule others_untouched)

text \<open>
  C1, at the input where the code departs from it: Alice is added to the empty table and
  gets id 1; she is deleted; Bob is added and \<open>load_employees\<close> then shows him under id 1,
  the id that was issued to Alice before.
\<close>

theorem add_after_delete_reissues_id:
  "add_employee (Some ''Alice'') (Some ''Engineer'') (Some ''alice@x.com'') (Some 90000)
     (Some ''Eng'') [] = (Returned, [alice])
   \<and> delete_employee 1 [alice] = (Returned, [])
   \<and> load_employees (snd (add_employee (Some ''Bob'') (Some ''Manager'') (Some ''bob@x.com'')
        (Some 110000) (Some ''Ops'') [])) = [bob\<lparr>emp_id := 1\<rparr>]
   \<and> emp_id alice = 1"
  by (simp add: crud_defs data_defs)

text \<open>
  C7, at the input where the code departs from it: with Alice under id 1, Bob is added under
  id 2 and deleted; Carol, added next, gets id 2 again. The ids issued are 2 and then 2: they
  do not increase, and the id of a deleted row is reused.
\<close>

theorem issued_ids_not_increasing:
  "snd (add_employee (Some ''Bob'') (Some ''Manager'') (Some ''bob@x.com'') (Some 110000)
     (Some ''Ops'') [alice]) = [alice, bob]
   \<and> snd (delete_employee 2 [alice, bob]) = [alice]
   \<and> snd (add_employee (Some ''Carol'') (Some ''Analyst'') (Some ''carol@x.com'') (Some 70000)
     (Some ''Ops'') [alice]) = [alice, carol]
   \<and> emp_id carol = emp_id bob"
  by (simp add: crud_defs data_defs)

section \<open>Facts about the loader\<close>



lemma store_float: "store E FLOAT (Num x) = Num x"
  by simp

lemma next_rowid_key: "next_rowid tbl = next_key (map emp_id tbl)"
  by (simp add: next_rowid_def next_key_def)

lemma next_key_Max: "next_key used = (if used = [] then 1 else Max (set used) + 1)"
  by (cases used) (simp_all add: next_key_def Max.set_eq_fold [symmetric])

lemma next_key_greater: "i \<in> set used \<Longrightarrow> i < next_key used"
proof -
  assume a: "i \<in> set used"
  then have ne: "used \<noteq> []" by auto
  have "i \<le> Max (set used)" using a by (intro Max_ge) auto
  then show ?thesis using ne by (simp add: next_key_Max)
qed

lemma next_key_fresh: "next_key used \<notin> set used"
  using next_key_greater by blast

lemma next_rowid_greater: "i \<in> set (map emp_id tbl) \<Longrightarrow> i < next_rowid tbl"
  unfolding next_rowid_key by (rule next_key_greater)

lemma next_rowid_fresh: "next_rowid tbl \<notin> set (map emp_id tbl)"
  unfolding next_rowid_key by (rule next_key_fresh)

text \<open>
  What \<open>add_employee\<close> does when all five fields are given, no row has the email and the
  next key is in the 64-bit range: it appends one row with these fields, under a key that is
  larger than every key in the table.
\<close>

lemma add_employee_appends:
  assumes "Txt e \<notin> set (map email tbl)" and "int64 (next_rowid tbl)"
  shows "add_employee (Some n) (Some p) (Some e) (Some s) (Some d) tbl
         = (Returned, tbl @ [\<lparr>emp_id = next_rowid tbl, name = Txt n, position = Txt p,
                               email = Txt e, salary = Num s, department = Txt d\<rparr>])"
  using assms next_rowid_fresh [of tbl]
  by (simp add: add_employee_def commit_def sql_insert_def py_str_def py_float_def Let_def)

lemma next_key_append: "next_key (used @ [next_key used]) = next_key used + 1"
proof (cases "used = []")
  case True
  then show ?thesis by (simp add: next_key_def)
next
  case False
  have "Max (set (used @ [next_key used])) = max (next_key used) (Max (set used))"
    using False by simp
  then show ?thesis using False by (simp add: next_key_Max)
qed








lemma value_of_absent:
  assumes "\<forall>c \<in> set hdr. column_of c \<noteq> Some k"
  shows "value_of hdr r k = Null"
proof -
  have "Some k \<notin> set (map column_of hdr)"
    using assms by auto
  then have "Some k \<notin> fst ` set (zip (map column_of hdr) r)"
    by (metis imageE prod.collapse set_zip_leftD)
  then have "map_of (zip (map column_of hdr) r) (Some k) = None"
        and "map_of (rev (zip (map column_of hdr) r)) (Some k) = None"
    by (simp_all add: map_of_eq_None_iff)
  then show ?thesis by (cases "k = Id") (simp_all add: value_of_def Let_def)
qed

text \<open>
  When no row gives a key (as when the frame has no key column), the rows get consecutive
  keys: from 1 on in an empty table.
\<close>

lemma shifted_upt: "map f [0..<Suc n] = f 0 # map (\<lambda>k. f (Suc k)) [0..<n]"
  by (simp only: upt_conv_Cons [OF zero_less_Suc] list.map map_Suc_upt [symmetric] map_map o_def)

lemma keys_without_key_cells:
  assumes "\<forall>r \<in> set rs. key_of E (value_of hdr r Id) = None"
  shows "assigned_keys E hdr used rs = map (\<lambda>k. next_key used + int k) [0..<length rs]"
  using assms
proof (induction rs arbitrary: used)
  case Nil
  then show ?case by simp
next
  case (Cons r rs)
  have k: "assigned_key E hdr used r = next_key used"
    using Cons.prems by (simp add: assigned_key_def)
  have rest: "assigned_keys E hdr (used @ [next_key used]) rs
        = map (\<lambda>k. next_key used + int (Suc k)) [0..<length rs]"
    using Cons.IH [of "used @ [next_key used]"] Cons.prems
    by (simp add: next_key_append add.assoc)
  have "map (\<lambda>k. next_key used + int k) [0..<length (r # rs)]
        = next_key used # map (\<lambda>k. next_key used + int (Suc k)) [0..<length rs]"
    using shifted_upt [of "\<lambda>k. next_key used + int k" "length rs"] by simp
  also have "\<dots> = assigned_keys E hdr used (r # rs)"
    by (simp only: assigned_keys.simps k rest)
  finally show ?case by (rule sym)
qed

lemma keys_without_key_column:
  assumes "\<forall>c \<in> set hdr. column_of c \<noteq> Some Id"
  shows "assigned_keys E hdr [] rs = map (\<lambda>k. int k + 1) [0..<length rs]"
proof -
  have "\<forall>r \<in> set rs. key_of E (value_of hdr r Id) = None"
    by (simp add: value_of_absent [OF assms])
  from keys_without_key_cells [OF this, of "[]"] show ?thesis
    by (simp add: next_key_def add.commute)
qed

lemma column_of_required:
  "column_of ''name'' = Some Name" "column_of ''position'' = Some Position"
  "column_of ''email'' = Some Email" "column_of ''salary'' = Some Salary"
  "column_of ''department'' = Some Department"
  by (simp_all add: column_of_def lower_def)




text \<open>
  A column name that denotes no column of the table passes the check of the required
  columns; the table is dropped and re-created, and then the \<open>INSERT\<close> fails.
\<close>

lemma load_unknown_column:
  assumes "\<forall>col \<in> set required_columns. col \<in> set (columns df)"
      and "c \<in> set (columns df)" and "column_of c = None" and "rows df \<noteq> []"
  shows "load_csv_to_db E (Csv df) tbl = (LoadError OperationalError, [])"
  using assms by (auto simp: load_csv_to_db_def create_all_def drop_table_def to_sql_def)



text \<open>
  C6. From every table: when there is no file at the CSV path, and when the file read lacks
  one of the five required columns, \<open>load_csv_to_db\<close> returns (it prints a message and
  raises nothing) and the table is as it was.
\<close>

theorem load_without_usable_csv:
  "load_csv_to_db E NoFile tbl = (NotFound, tbl)
   \<and> ((\<exists>col \<in> set required_columns. col \<notin> set (columns df))
        \<longrightarrow> load_csv_to_db E (Csv df) tbl = (MissingColumns, tbl))"
  by (auto simp: load_csv_to_db_def)

theorem load_without_usable_csv_witness:
  "load_csv_to_db no_conversion NoFile [alice, bob] = (NotFound, [alice, bob])
   \<and> load_csv_to_db no_conversion
        (Csv \<lparr>columns = [''name'', ''position'', ''email'', ''department''],
              rows = [[Txt ''Carol'', Txt ''Analyst'', Txt ''carol@x.com'', Txt ''Ops'']]\<rparr>)
        [alice, bob] = (MissingColumns, [alice, bob])"
proof -
  let ?df = "\<lparr>columns = [''name'', ''position'', ''email'', ''department''],
              rows = [[Txt ''Carol'', Txt ''Analyst'', Txt ''carol@x.com'', Txt ''Ops'']]\<rparr>
             :: int dataframe"
  have missing: "\<exists>col \<in> set required_columns. col \<notin> set (columns ?df)"
    by (simp add: required_columns_def)
  show ?thesis
    using load_without_usable_csv [of no_conversion "[alice, bob]" ?df] missing by blast
qed







text \<open>
  C9, at the input where the code departs from it: a CSV with the five required columns
  and a column \<open>notes\<close>, loaded over the table of Alice and Bob. The additional column is
  not ignored: the \<open>INSERT\<close> names it and fails, after the table has been dropped, and
  the table is left empty.
\<close>

theorem extra_column_empties_table:
  "load_csv_to_db no_conversion (Csv notes_csv) [alice, bob] = (LoadError OperationalError, [])"
proof (rule load_unknown_column)
  show "\<forall>col \<in> set required_columns. col \<in> set (columns notes_csv)"
    by (simp add: notes_csv_def required_columns_def)
  show "''notes'' \<in> set (columns notes_csv)" by (simp add: notes_csv_def)
  show "column_of ''notes'' = None" by (simp add: column_of_def lower_def)
  show "rows notes_csv \<noteq> []" by (simp add: notes_csv_def)
qed

theorem extra_column_empties_table_witness:
  "load_employees (snd (load_csv_to_db no_conversion (Csv notes_csv) [alice, bob])) = []
   \<and> length (rows notes_csv) = 1"
  using extra_column_empties_table by (simp add: load_employees_def notes_csv_def)

text \<open>An integer salary beyond \<open>2^53\<close> is stored rounded.\<close>

lemma integer_salary_rounded:
  "store no_conversion FLOAT (Intg 9007199254740993) = Num 9007199254740992"
  by (simp add: no_conversion_def nearest_double_def)

text \<open>A CSV with a key column: the rows are stored under the keys they give, at every run.\<close>

lemma keyed_csv_loads:
  "load_csv_to_db no_conversion (Csv keyed_csv) [alice, bob] = (Loaded, [carol\<lparr>emp_id := 10\<rparr>])
   \<and> load_csv_to_db no_conversion (Csv keyed_csv) [carol\<lparr>emp_id := 10\<rparr>]
       = (Loaded, [carol\<lparr>emp_id := 10\<rparr>])"
proof -
  have key: "column_of ''ID'' = Some Id"
    by (simp add: column_of_def lower_def)
  have v: "value_of [''ID'', ''name'', ''position'', ''email'', ''salary'', ''department'']
             [k, n, p, e, s, d] c
           = (case c of Id \<Rightarrow> k | Name \<Rightarrow> n | Position \<Rightarrow> p | Email \<Rightarrow> e | Salary \<Rightarrow> s
              | Department \<Rightarrow> d)" for k n p e s d :: "int cell" and c
    by (cases c) (simp_all add: value_of_def key column_of_required Let_def)
  have run: "load_csv_to_db no_conversion (Csv keyed_csv) tbl = (Loaded, [carol\<lparr>emp_id := 10\<rparr>])"
    for tbl
    by (simp add: keyed_csv_def load_csv_to_db_def to_sql_def required_columns_def
          create_all_def drop_table_def insert_row_def sql_insert_def Let_def v key
          column_of_required carol_def int64_def)
  show ?thesis by (simp add: run)
qed

end
